theory Spec2Isabelle
  imports Main "HOL-Library.Word"
begin

unbundle bit_operations_syntax

section \<open>Constants (constants.go)\<close>

type_synonym byte = "8 word"
type_synonym uint32 = "32 word"

text \<open>A Go string is an immutable sequence of bytes.\<close>
type_synonym gostring = "byte list"

definition HeaderMagic :: uint32 where
  "HeaderMagic = 0x4E414256"

definition MaxStreamNameLen :: nat where
  "MaxStreamNameLen = 16"

definition HeaderSize :: nat where
  "HeaderSize = 28"

definition MaxPacketDataSize :: nat where
  "MaxPacketDataSize = 1436"

definition MaxVBANPacketSize :: nat where
  "MaxVBANPacketSize = HeaderSize + MaxPacketDataSize"

text \<open>\<^verbatim>\<open>type SubProtocol uint8\<close> and \<^verbatim>\<open>type SRIndex uint8\<close>.\<close>
type_synonym SubProtocol = byte
type_synonym SRIndex = byte

definition ProtocolAudio :: SubProtocol where "ProtocolAudio = 0x00"
definition ProtocolSerial :: SubProtocol where "ProtocolSerial = 0x20"
definition ProtocolText :: SubProtocol where "ProtocolText = 0x40"
definition ProtocolService :: SubProtocol where "ProtocolService = 0x60"
definition ProtocolMask :: SubProtocol where "ProtocolMask = 0xE0"

definition IsAudio :: "SubProtocol \<Rightarrow> bool" where
  "IsAudio sp \<longleftrightarrow> (sp AND ProtocolMask) = ProtocolAudio"

definition IsSerial :: "SubProtocol \<Rightarrow> bool" where
  "IsSerial sp \<longleftrightarrow> (sp AND ProtocolMask) = ProtocolSerial"

definition IsText :: "SubProtocol \<Rightarrow> bool" where
  "IsText sp \<longleftrightarrow> (sp AND ProtocolMask) = ProtocolText"

definition IsService :: "SubProtocol \<Rightarrow> bool" where
  "IsService sp \<longleftrightarrow> (sp AND ProtocolMask) = ProtocolService"

definition SRMask :: SRIndex where "SRMask = 0x1F"

text \<open>The two Go maps, as association lists looked up with \<^const>\<open>map_of\<close>.\<close>

definition SRList :: "(SRIndex \<times> uint32) list" where
  "SRList =
    [(0, 6000), (1, 12000), (2, 24000), (3, 48000), (4, 96000), (5, 192000), (6, 384000),
     (7, 8000), (8, 16000), (9, 32000), (10, 64000), (11, 128000), (12, 256000), (13, 512000),
     (14, 11025), (15, 22050), (16, 44100), (17, 88200), (18, 176400), (19, 352800),
     (20, 705600)]"

definition BPSList :: "(SRIndex \<times> uint32) list" where
  "BPSList =
    [(0, 0), (1, 110), (2, 150), (3, 300), (4, 600), (5, 1200), (6, 2400), (7, 4800),
     (8, 9600), (9, 14400), (10, 19200), (11, 31250), (12, 38400), (13, 57600),
     (14, 115200), (15, 128000), (16, 230400), (17, 250000), (18, 256000), (19, 460800),
     (20, 921600), (21, 1000000), (22, 1500000), (23, 2000000), (24, 3000000)]"

definition GetRate :: "SRIndex \<Rightarrow> SubProtocol \<Rightarrow> uint32" where
  "GetRate sri sp =
    (let index = sri AND SRMask in
     if IsAudio sp then
       (case map_of SRList index of Some rate \<Rightarrow> rate | None \<Rightarrow> 0)
     else if IsSerial sp \<or> IsText sp then
       (case map_of BPSList index of Some rate \<Rightarrow> rate | None \<Rightarrow> 0)
     else 0)"

section \<open>Errors\<close>

text \<open>The two sentinel errors of package \<^verbatim>\<open>io\<close> that a read from an in-memory reader
  can produce.\<close>
datatype io_error = EOF | ErrUnexpectedEOF

text \<open>An error returned by a method of \<^verbatim>\<open>*net.UDPConn\<close>. The package tells
  \<^verbatim>\<open>net.ErrClosed\<close> from the others with \<^verbatim>\<open>errors.Is\<close>.\<close>
datatype net_error = ErrClosed | NetFailure nat

text \<open>One constructor for each \<^verbatim>\<open>errors.New\<close> / \<^verbatim>\<open>fmt.Errorf\<close> of vban.go, carrying
  the values the message is formatted with; a wrapped error (\<^verbatim>\<open>%w\<close>) is an argument.
  \<open>SocketError\<close> is an error of the socket that \<^verbatim>\<open>Close\<close> returns as it got it.\<close>
datatype error =
    DataSizeExceeds nat nat
  | MarshalPacketHeaderFailed error
  | InsufficientPacketData nat nat
  | PacketSizeExceeds nat nat
  | UnmarshalHeaderFailed error
  | SamplesOutOfRange
  | ChannelsOutOfRange
  | InternalHeaderSize nat nat
  | InsufficientHeaderData nat nat
  | ReadMagicFailed io_error
  | InvalidMagic uint32 uint32
  | ReadFormatSRFailed io_error
  | ReadFormatNbsFailed io_error
  | ReadFormatNbcFailed io_error
  | ReadFormatBitFailed io_error
  | ReadStreamNameFailed io_error
  | ReadNuFrameFailed io_error
  | ConnectionClosed
  | NilPacket
  | MarshalForSendFailed error
  | DestinationRequired
  | UDPWriteError net_error
  | IncompleteWrite int nat
  | ConnectionClosedDuringRead net_error
  | UDPReadError net_error
  | EmptyUDPPacket
  | OversizedPacket int nat
  | UnmarshalReceivedFailed error
  | SocketError net_error

section \<open>Header (vban.go)\<close>

text \<open>The Go struct. \<^verbatim>\<open>StreamName\<close> is the array \<^verbatim>\<open>[16]byte\<close>: a list whose length the Go type
  fixes at \<^const>\<open>MaxStreamNameLen\<close>.\<close>
record Header =
  VBAN :: uint32
  FormatSR :: byte
  FormatNbs :: byte
  FormatNbc :: byte
  FormatBit :: byte
  StreamName :: "byte list"
  NuFrame :: uint32

definition wf_Header :: "Header \<Rightarrow> bool" where
  "wf_Header h \<longleftrightarrow> length (StreamName h) = MaxStreamNameLen"

text \<open>The zero value \<^verbatim>\<open>Header{}\<close>.\<close>
definition zero_Header :: Header where
  "zero_Header = \<lparr>VBAN = 0, FormatSR = 0, FormatNbs = 0, FormatNbc = 0, FormatBit = 0,
     StreamName = replicate MaxStreamNameLen 0, NuFrame = 0\<rparr>"

text \<open>The builtin \<^verbatim>\<open>copy(dst, src)\<close>: the first \<open>min (len dst) (len src)\<close> bytes of \<open>dst\<close>
  are overwritten; the number of bytes copied is returned with the new \<open>dst\<close>.\<close>
definition copy_bytes :: "byte list \<Rightarrow> byte list \<Rightarrow> byte list \<times> nat" where
  "copy_bytes dst src =
    (let n = min (length dst) (length src) in (take n src @ drop n dst, n))"

text \<open>The loop \<^verbatim>\<open>for i := l; i < MaxStreamNameLen; i++ { h.StreamName[i] = 0 }\<close>.\<close>
function zero_from :: "nat \<Rightarrow> byte list \<Rightarrow> byte list" where
  "zero_from i xs = (if i < MaxStreamNameLen then zero_from (i + 1) (xs[i := 0]) else xs)"
  by pat_completeness auto
termination
  by (relation "measure (\<lambda>(i, xs). MaxStreamNameLen - i)") auto

declare zero_from.simps [simp del]

definition SetStreamName :: "Header \<Rightarrow> gostring \<Rightarrow> Header" where
  "SetStreamName h name =
    (let (sn, l) = copy_bytes (StreamName h) name
     in h\<lparr>StreamName := zero_from l sn\<rparr>)"

text \<open>\<^verbatim>\<open>bytes.IndexByte\<close>: the index of the first occurrence of \<open>c\<close>, or \<open>-1\<close>.\<close>
fun IndexByte :: "byte list \<Rightarrow> byte \<Rightarrow> int" where
  "IndexByte [] c = - 1"
| "IndexByte (b # bs) c =
    (if b = c then 0 else (let i = IndexByte bs c in if i = - 1 then - 1 else i + 1))"

definition GetStreamName :: "Header \<Rightarrow> gostring" where
  "GetStreamName h =
    (let n = IndexByte (StreamName h) 0;
         n = (if n = - 1 then int MaxStreamNameLen else n)
     in take (nat n) (StreamName h))"

definition NewHeader :: "SubProtocol \<Rightarrow> gostring \<Rightarrow> Header" where
  "NewHeader subProto streamName =
    SetStreamName (zero_Header\<lparr>VBAN := HeaderMagic, FormatSR := subProto\<rparr>) streamName"

definition Header_SubProtocol :: "Header \<Rightarrow> SubProtocol" where
  "Header_SubProtocol h = FormatSR h AND ProtocolMask"

definition Header_SRIndex :: "Header \<Rightarrow> SRIndex" where
  "Header_SRIndex h = FormatSR h AND SRMask"

text \<open>Both return \<^verbatim>\<open>uint8\<close>: the addition is modulo 256.\<close>
definition SamplesPerFrame :: "Header \<Rightarrow> byte" where
  "SamplesPerFrame h = FormatNbs h + 1"

definition SetSamplesPerFrame :: "Header \<Rightarrow> byte \<Rightarrow> Header \<times> error option" where
  "SetSamplesPerFrame h nbSamples =
    (if nbSamples = 0 then (h, Some SamplesOutOfRange)
     else (h\<lparr>FormatNbs := nbSamples - 1\<rparr>, None))"

definition Channels :: "Header \<Rightarrow> byte" where
  "Channels h = FormatNbc h + 1"

definition SetChannels :: "Header \<Rightarrow> byte \<Rightarrow> Header \<times> error option" where
  "SetChannels h nbChannels =
    (if nbChannels = 0 then (h, Some ChannelsOutOfRange)
     else (h\<lparr>FormatNbc := nbChannels - 1\<rparr>, None))"

text \<open>\<^verbatim>\<open>type DataType uint8\<close> and \<^verbatim>\<open>type CodecType uint8\<close>, with their masks. In
  \<^verbatim>\<open>SetAudioFormat\<close>, \<^verbatim>\<open>x &^= 0x08\<close> clears bit 3.\<close>
definition DataTypeMask :: byte where "DataTypeMask = 0x07"
definition CodecMask :: byte where "CodecMask = 0xF0"

definition SetAudioFormat :: "Header \<Rightarrow> SRIndex \<Rightarrow> byte \<Rightarrow> byte \<Rightarrow> Header" where
  "SetAudioFormat h srIndex dataType codec =
    (let h = h\<lparr>FormatSR := (ProtocolAudio AND ProtocolMask) OR (srIndex AND SRMask)\<rparr>;
         h = h\<lparr>FormatBit := (codec AND CodecMask) OR (dataType AND DataTypeMask)\<rparr>
     in h\<lparr>FormatBit := FormatBit h AND NOT 0x08\<rparr>)"

subsection \<open>Little-endian encoding (encoding/binary)\<close>

text \<open>\<^verbatim>\<open>binary.LittleEndian.PutUint32\<close> and \<^verbatim>\<open>Uint32\<close>.\<close>
definition PutUint32 :: "uint32 \<Rightarrow> byte list" where
  "PutUint32 v = [ucast v, ucast (drop_bit 8 v), ucast (drop_bit 16 v), ucast (drop_bit 24 v)]"

definition Uint32 :: "byte list \<Rightarrow> uint32" where
  "Uint32 b = ucast (b ! 0) OR push_bit 8 (ucast (b ! 1)) OR push_bit 16 (ucast (b ! 2))
              OR push_bit 24 (ucast (b ! 3))"

text \<open>\<^verbatim>\<open>io.ReadFull\<close> on a \<^verbatim>\<open>bytes.Reader\<close> whose unread part is \<open>r\<close>, for \<open>n > 0\<close> bytes:
  the bytes read and the rest, \<^verbatim>\<open>io.EOF\<close> when nothing is left, \<^verbatim>\<open>io.ErrUnexpectedEOF\<close>
  when fewer than \<open>n\<close> bytes are.\<close>
definition ReadFull :: "nat \<Rightarrow> byte list \<Rightarrow> io_error + (byte list \<times> byte list)" where
  "ReadFull n r =
    (if n \<le> length r then Inr (take n r, drop n r)
     else if r = [] then Inl EOF else Inl ErrUnexpectedEOF)"

text \<open>\<^verbatim>\<open>binary.Read(buf, byteOrder, &x)\<close> for a \<^verbatim>\<open>uint32\<close> and for a \<^verbatim>\<open>uint8\<close>: the value
  and the reader's unread part.\<close>
definition Read_uint32 :: "byte list \<Rightarrow> io_error + (uint32 \<times> byte list)" where
  "Read_uint32 r = (case ReadFull 4 r of Inl e \<Rightarrow> Inl e | Inr (bs, r') \<Rightarrow> Inr (Uint32 bs, r'))"

definition Read_uint8 :: "byte list \<Rightarrow> io_error + (byte \<times> byte list)" where
  "Read_uint8 r = (case ReadFull 1 r of Inl e \<Rightarrow> Inl e | Inr (bs, r') \<Rightarrow> Inr (bs ! 0, r'))"

text \<open>\<^verbatim>\<open>(*bytes.Reader).Read(b)\<close>: \<^verbatim>\<open>io.EOF\<close> at the end of the input, otherwise
  \<^verbatim>\<open>copy(b, unread)\<close>; returns the new \<open>b\<close> and the unread part.\<close>
definition Reader_Read :: "byte list \<Rightarrow> byte list \<Rightarrow> io_error + (byte list \<times> byte list)" where
  "Reader_Read b r =
    (if r = [] then Inl EOF
     else (let (b', n) = copy_bytes b r in Inr (b', drop n r)))"

subsection \<open>Marshaling of the header\<close>

text \<open>The \<^verbatim>\<open>bytes.Buffer\<close> is the list of bytes written so far; its writes do not fail.\<close>
definition Header_MarshalBinary :: "Header \<Rightarrow> error + byte list" where
  "Header_MarshalBinary h =
    (let buf = [];
         buf = buf @ PutUint32 (VBAN h);
         buf = buf @ [FormatSR h];
         buf = buf @ [FormatNbs h];
         buf = buf @ [FormatNbc h];
         buf = buf @ [FormatBit h];
         buf = buf @ StreamName h;
         buf = buf @ PutUint32 (NuFrame h)
     in if length buf \<noteq> HeaderSize then Inl (InternalHeaderSize (length buf) HeaderSize)
        else Inr buf)"

text \<open>The method has a pointer receiver and stores each field as soon as it is read:
  the model returns the receiver as the call leaves it, with the error (\<open>None\<close> is \<^verbatim>\<open>nil\<close>).\<close>
definition Header_UnmarshalBinary :: "Header \<Rightarrow> byte list \<Rightarrow> Header \<times> error option" where
  "Header_UnmarshalBinary h data =
    (if length data < HeaderSize
     then (h, Some (InsufficientHeaderData HeaderSize (length data)))
     else
      (let buf = take HeaderSize data in
       case Read_uint32 buf of
         Inl e \<Rightarrow> (h, Some (ReadMagicFailed e))
       | Inr (v, buf) \<Rightarrow>
      (let h = h\<lparr>VBAN := v\<rparr> in
       if VBAN h \<noteq> HeaderMagic then (h, Some (InvalidMagic HeaderMagic (VBAN h)))
       else
       case Read_uint8 buf of
         Inl e \<Rightarrow> (h, Some (ReadFormatSRFailed e))
       | Inr (v, buf) \<Rightarrow>
      (let h = h\<lparr>FormatSR := v\<rparr> in
       case Read_uint8 buf of
         Inl e \<Rightarrow> (h, Some (ReadFormatNbsFailed e))
       | Inr (v, buf) \<Rightarrow>
      (let h = h\<lparr>FormatNbs := v\<rparr> in
       case Read_uint8 buf of
         Inl e \<Rightarrow> (h, Some (ReadFormatNbcFailed e))
       | Inr (v, buf) \<Rightarrow>
      (let h = h\<lparr>FormatNbc := v\<rparr> in
       case Read_uint8 buf of
         Inl e \<Rightarrow> (h, Some (ReadFormatBitFailed e))
       | Inr (v, buf) \<Rightarrow>
      (let h = h\<lparr>FormatBit := v\<rparr> in
       case Reader_Read (StreamName h) buf of
         Inl e \<Rightarrow> (h, Some (ReadStreamNameFailed e))
       | Inr (sn, buf) \<Rightarrow>
      (let h = h\<lparr>StreamName := sn\<rparr> in
       case Read_uint32 buf of
         Inl e \<Rightarrow> (h, Some (ReadNuFrameFailed e))
       | Inr (v, buf) \<Rightarrow> (h\<lparr>NuFrame := v\<rparr>, None)))))))))"

section \<open>Packet (vban.go)\<close>

text \<open>The payload type is a parameter: the bytes themselves (\<open>byte list\<close>) where only the
  contents matter, a slice into a store of arrays where the sharing of memory matters.\<close>
record 'd Packet =
  Header :: Header
  Data :: 'd

text \<open>A result \<^verbatim>\<open>(*Packet, error)\<close> is a pair of options: \<open>None\<close> is \<^verbatim>\<open>nil\<close>.\<close>
definition NewPacket :: "Header \<Rightarrow> byte list \<Rightarrow> (byte list) Packet option \<times> error option" where
  "NewPacket header data =
    (if length data > MaxPacketDataSize
     then (None, Some (DataSizeExceeds (length data) MaxPacketDataSize))
     else (Some \<lparr>Header = header, Data = data\<rparr>, None))"

definition Packet_MarshalBinary :: "(byte list) Packet \<Rightarrow> error + byte list" where
  "Packet_MarshalBinary p =
    (case Header_MarshalBinary (Header p) of
       Inl err \<Rightarrow> Inl (MarshalPacketHeaderFailed err)
     | Inr headerBytes \<Rightarrow>
         if length (Data p) > MaxPacketDataSize
         then Inl (DataSizeExceeds (length (Data p)) MaxPacketDataSize)
         else (let fullPacket = [];
                   fullPacket = fullPacket @ headerBytes;
                   fullPacket = fullPacket @ Data p
               in Inr fullPacket))"

definition UnmarshalBinary :: "byte list \<Rightarrow> (byte list) Packet option \<times> error option" where
  "UnmarshalBinary data =
    (if length data < HeaderSize
     then (None, Some (InsufficientPacketData (length data) HeaderSize))
     else if length data > MaxVBANPacketSize
     then (None, Some (PacketSizeExceeds (length data) MaxVBANPacketSize))
     else
       (let (h, err) = Header_UnmarshalBinary zero_Header (take HeaderSize data) in
        case err of
          Some e \<Rightarrow> (None, Some (UnmarshalHeaderFailed e))
        | None \<Rightarrow>
            (let dataPayload = drop HeaderSize data;
                 (d, _) = copy_bytes (replicate (length dataPayload) 0) dataPayload
             in (Some \<lparr>Header = h, Data = d\<rparr>, None))))"

subsection \<open>The same decoder over a store of byte arrays\<close>

text \<open>To say which memory the decoded payload lives in, slices are made explicit: the store
  is the list of the backing arrays allocated so far, an address is an index into it, and a
  slice is a window \<open>[off, off + len)\<close> of one array. (The capacity plays no part in the
  decoder and is left out.)\<close>
type_synonym store = "byte list list"

record slice =
  base :: nat
  off :: nat
  len :: nat

definition valid_slice :: "store \<Rightarrow> slice \<Rightarrow> bool" where
  "valid_slice st s \<longleftrightarrow> base s < length st \<and> off s + len s \<le> length (st ! base s)"

definition slice_bytes :: "store \<Rightarrow> slice \<Rightarrow> byte list" where
  "slice_bytes st s =
    (if base s < length st then take (len s) (drop (off s) (st ! base s)) else [])"

text \<open>\<^verbatim>\<open>s[lo:hi]\<close>.\<close>
definition reslice :: "slice \<Rightarrow> nat \<Rightarrow> nat \<Rightarrow> slice" where
  "reslice s lo hi = \<lparr>base = base s, off = off s + lo, len = hi - lo\<rparr>"

text \<open>\<^verbatim>\<open>make([]byte, n)\<close>: a new zeroed array at the next free address.\<close>
definition make_bytes :: "store \<Rightarrow> nat \<Rightarrow> store \<times> slice" where
  "make_bytes st n = (st @ [replicate n 0], \<lparr>base = length st, off = 0, len = n\<rparr>)"

text \<open>\<^verbatim>\<open>copy(dst, src)\<close> on slices: the window of \<open>dst\<close> in its array is overwritten.\<close>
definition copy_slice :: "store \<Rightarrow> slice \<Rightarrow> slice \<Rightarrow> store \<times> nat" where
  "copy_slice st dst src =
    (let bs = slice_bytes st src;
         n = min (len dst) (len src);
         a = st ! base dst
     in (st[base dst := take (off dst) a @ take n bs @ drop (off dst + n) a], n))"

definition UnmarshalBinary_store ::
    "store \<Rightarrow> slice \<Rightarrow> store \<times> slice Packet option \<times> error option" where
  "UnmarshalBinary_store st data =
    (if len data < HeaderSize
     then (st, None, Some (InsufficientPacketData (len data) HeaderSize))
     else if len data > MaxVBANPacketSize
     then (st, None, Some (PacketSizeExceeds (len data) MaxVBANPacketSize))
     else
       (let (h, err) =
              Header_UnmarshalBinary zero_Header (slice_bytes st (reslice data 0 HeaderSize)) in
        case err of
          Some e \<Rightarrow> (st, None, Some (UnmarshalHeaderFailed e))
        | None \<Rightarrow>
            (let dataPayload = reslice data HeaderSize (len data);
                 (st, d) = make_bytes st (len dataPayload);
                 (st, _) = copy_slice st d dataPayload
             in (st, Some \<lparr>Header = h, Data = d\<rparr>, None))))"

section \<open>Conn (vban.go)\<close>

text \<open>\<^verbatim>\<open>*net.UDPConn\<close> and \<^verbatim>\<open>*net.UDPAddr\<close> belong to the standard library. A socket
  is a handle; what its methods do is a parameter of the model: a record of functions over
  a state \<open>'w\<close> of the world outside the program. \<open>udp_ReadFromUDP\<close> gets the buffer and
  returns it as the read left it.\<close>
type_synonym UDPConn = nat

record UDPAddr =
  IP :: "byte list"
  Port :: int
  Zone :: gostring

record 'w udp =
  udp_Close :: "UDPConn \<Rightarrow> 'w \<Rightarrow> 'w \<times> net_error option"
  udp_WriteToUDP :: "UDPConn \<Rightarrow> byte list \<Rightarrow> UDPAddr \<Rightarrow> 'w \<Rightarrow> 'w \<times> int \<times> net_error option"
  udp_Write :: "UDPConn \<Rightarrow> byte list \<Rightarrow> 'w \<Rightarrow> 'w \<times> int \<times> net_error option"
  udp_ReadFromUDP ::
    "UDPConn \<Rightarrow> byte list \<Rightarrow> 'w \<Rightarrow> 'w \<times> byte list \<times> int \<times> UDPAddr option \<times> net_error option"
  udp_LocalAddr :: "UDPConn \<Rightarrow> 'w \<Rightarrow> UDPAddr option"
  udp_RemoteAddr :: "UDPConn \<Rightarrow> 'w \<Rightarrow> UDPAddr option"

text \<open>\<open>udpConn = None\<close> is the \<^verbatim>\<open>nil\<close> pointer: the endpoint is closed.\<close>
record Conn =
  udpConn :: "UDPConn option"
  readBuffer :: "byte list"

definition NewConn :: "UDPConn option \<Rightarrow> Conn option" where
  "NewConn u =
    (case u of
       None \<Rightarrow> None
     | Some c \<Rightarrow> Some \<lparr>udpConn = Some c, readBuffer = replicate (MaxVBANPacketSize + 1) 0\<rparr>)"

text \<open>Every method takes the receiver and the world and returns both with its results.\<close>
definition Conn_Close :: "'w udp \<Rightarrow> Conn \<Rightarrow> 'w \<Rightarrow> Conn \<times> 'w \<times> error option" where
  "Conn_Close net c w =
    (case udpConn c of
       None \<Rightarrow> (c, w, None)
     | Some u \<Rightarrow>
         (let (w, err) = udp_Close net u w;
              c = c\<lparr>udpConn := None\<rparr>
          in (c, w, map_option SocketError err)))"

text \<open>The checks on the result of the write, shared by both branches of \<^verbatim>\<open>Send\<close>.\<close>
definition written :: "Conn \<Rightarrow> byte list \<Rightarrow> 'w \<times> int \<times> net_error option \<Rightarrow>
    Conn \<times> 'w \<times> error option" where
  "written c packetBytes r =
    (case r of (w, n, err) \<Rightarrow>
      (case err of
         Some e \<Rightarrow> (c, w, Some (UDPWriteError e))
       | None \<Rightarrow>
           if n \<noteq> int (length packetBytes)
           then (c, w, Some (IncompleteWrite n (length packetBytes)))
           else (c, w, None)))"

definition Conn_Send :: "'w udp \<Rightarrow> Conn \<Rightarrow> 'w \<Rightarrow> (byte list) Packet option \<Rightarrow> UDPAddr option \<Rightarrow>
    Conn \<times> 'w \<times> error option" where
  "Conn_Send net c w packet addr =
    (case udpConn c of
       None \<Rightarrow> (c, w, Some ConnectionClosed)
     | Some u \<Rightarrow>
    (case packet of
       None \<Rightarrow> (c, w, Some NilPacket)
     | Some p \<Rightarrow>
    (case Packet_MarshalBinary p of
       Inl err \<Rightarrow> (c, w, Some (MarshalForSendFailed err))
     | Inr packetBytes \<Rightarrow>
    (case addr of
       Some a \<Rightarrow> written c packetBytes (udp_WriteToUDP net u packetBytes a w)
     | None \<Rightarrow>
         if udp_RemoteAddr net u w = None then (c, w, Some DestinationRequired)
         else written c packetBytes (udp_Write net u packetBytes w)))))"

definition Conn_Receive :: "'w udp \<Rightarrow> Conn \<Rightarrow> 'w \<Rightarrow>
    Conn \<times> 'w \<times> (byte list) Packet option \<times> UDPAddr option \<times> error option" where
  "Conn_Receive net c w =
    (case udpConn c of
       None \<Rightarrow> (c, w, None, None, Some ConnectionClosed)
     | Some u \<Rightarrow>
    (case udp_ReadFromUDP net u (readBuffer c) w of (w, buf, n, remoteAddr, err) \<Rightarrow>
    (let c = c\<lparr>readBuffer := buf\<rparr> in
     case err of
       Some e \<Rightarrow>
         if e = ErrClosed then (c, w, None, None, Some (ConnectionClosedDuringRead e))
         else (c, w, None, None, Some (UDPReadError e))
     | None \<Rightarrow>
         if n = 0 then (c, w, None, remoteAddr, Some EmptyUDPPacket)
         else if n > int MaxVBANPacketSize
         then (c, w, None, remoteAddr, Some (OversizedPacket n MaxVBANPacketSize))
         else
           (let (packet, err) = UnmarshalBinary (take (nat n) (readBuffer c)) in
            case err of
              Some e \<Rightarrow> (c, w, None, remoteAddr, Some (UnmarshalReceivedFailed e))
            | None \<Rightarrow> (c, w, packet, remoteAddr, None)))))"

definition Conn_LocalAddr :: "'w udp \<Rightarrow> Conn \<Rightarrow> 'w \<Rightarrow> UDPAddr option" where
  "Conn_LocalAddr net c w = (case udpConn c of None \<Rightarrow> None | Some u \<Rightarrow> udp_LocalAddr net u w)"

definition Conn_RemoteAddr :: "'w udp \<Rightarrow> Conn \<Rightarrow> 'w \<Rightarrow> UDPAddr option" where
  "Conn_RemoteAddr net c w = (case udpConn c of None \<Rightarrow> None | Some u \<Rightarrow> udp_RemoteAddr net u w)"

subsection \<open>Sequences of calls on one endpoint\<close>

text \<open>A caller's use of an endpoint is a list of method calls; each yields the results of
  the method it names.\<close>
datatype call =
    Send "(byte list) Packet option" "UDPAddr option"
  | Receive
  | Close
  | LocalAddr
  | RemoteAddr

datatype reply =
    SendReply "error option"
  | ReceiveReply "(byte list) Packet option" "UDPAddr option" "error option"
  | CloseReply "error option"
  | AddrReply "UDPAddr option"

fun step :: "'w udp \<Rightarrow> call \<Rightarrow> Conn \<times> 'w \<Rightarrow> (Conn \<times> 'w) \<times> reply" where
  "step net (Send packet addr) (c, w) =
    (case Conn_Send net c w packet addr of (c', w', err) \<Rightarrow> ((c', w'), SendReply err))"
| "step net Receive (c, w) =
    (case Conn_Receive net c w of (c', w', p, a, err) \<Rightarrow> ((c', w'), ReceiveReply p a err))"
| "step net Close (c, w) =
    (case Conn_Close net c w of (c', w', err) \<Rightarrow> ((c', w'), CloseReply err))"
| "step net LocalAddr (c, w) = ((c, w), AddrReply (Conn_LocalAddr net c w))"
| "step net RemoteAddr (c, w) = ((c, w), AddrReply (Conn_RemoteAddr net c w))"

fun run :: "'w udp \<Rightarrow> call list \<Rightarrow> Conn \<times> 'w \<Rightarrow> (Conn \<times> 'w) \<times> reply list" where
  "run net [] s = (s, [])"
| "run net (x # xs) s =
    (case step net x s of (s', r) \<Rightarrow> (case run net xs s' of (s'', rs) \<Rightarrow> (s'', r # rs)))"

section \<open>The header codec\<close>

subsection \<open>Little-endian words and the reader\<close>

lemma Uint32_PutUint32: "Uint32 (PutUint32 v) = v"
proof (rule bit_word_eqI)
  fix n :: nat
  assume "n < LENGTH(32)"
  then consider "n < 8" | "8 \<le> n" "n < 16" | "16 \<le> n" "n < 24" | "24 \<le> n" "n < 32"
    by fastforce
  then show "bit (Uint32 (PutUint32 v)) n \<longleftrightarrow> bit v n"
    by cases (auto simp: Uint32_def PutUint32_def bit_simps)
qed

lemma length_PutUint32: "length (PutUint32 v) = 4"
  by (simp add: PutUint32_def)

lemma Read_uint32_ok:
  "4 \<le> length r \<Longrightarrow> Read_uint32 r = Inr (Uint32 (take 4 r), drop 4 r)"
  by (simp add: Read_uint32_def ReadFull_def)

lemma Read_uint8_ok:
  "1 \<le> length r \<Longrightarrow> Read_uint8 r = Inr (r ! 0, drop 1 r)"
  by (simp add: Read_uint8_def ReadFull_def)

lemma Reader_Read_ok:
  "length b \<le> length r \<Longrightarrow> 0 < length b \<Longrightarrow>
   Reader_Read b r = Inr (take (length b) r, drop (length b) r)"
  by (auto simp: Reader_Read_def copy_bytes_def min_def Let_def)

subsection \<open>What the decoder does on every input\<close>

lemma Header_UnmarshalBinary_short:
  "length data < HeaderSize \<Longrightarrow>
   Header_UnmarshalBinary h data = (h, Some (InsufficientHeaderData HeaderSize (length data)))"
  by (simp add: Header_UnmarshalBinary_def)

text \<open>With 28 bytes or more no read can fail: the only failure left is the magic number,
  and it is found after the magic field of the receiver has been assigned.\<close>
lemma Header_UnmarshalBinary_long:
  assumes "HeaderSize \<le> length data" and "wf_Header h"
  shows "Header_UnmarshalBinary h data =
    (if Uint32 (take 4 data) \<noteq> HeaderMagic
     then (h\<lparr>VBAN := Uint32 (take 4 data)\<rparr>,
           Some (InvalidMagic HeaderMagic (Uint32 (take 4 data))))
     else (h\<lparr>VBAN := Uint32 (take 4 data), FormatSR := data ! 4, FormatNbs := data ! 5,
             FormatNbc := data ! 6, FormatBit := data ! 7, StreamName := take 16 (drop 8 data),
             NuFrame := Uint32 (take 4 (drop 24 data))\<rparr>, None))"
  using assms
  by (simp add: Header_UnmarshalBinary_def wf_Header_def HeaderSize_def MaxStreamNameLen_def
      Read_uint32_ok Read_uint8_ok Reader_Read_ok Let_def min_def nth_append take_drop)

lemma Header_MarshalBinary_wf:
  "wf_Header h \<Longrightarrow> Header_MarshalBinary h =
     Inr (PutUint32 (VBAN h) @ [FormatSR h, FormatNbs h, FormatNbc h, FormatBit h]
          @ StreamName h @ PutUint32 (NuFrame h))"
  by (simp add: Header_MarshalBinary_def wf_Header_def HeaderSize_def MaxStreamNameLen_def
      length_PutUint32)

subsection \<open>The stream name\<close>

lemma zero_from_eq:
  "length xs = MaxStreamNameLen \<Longrightarrow> i \<le> MaxStreamNameLen \<Longrightarrow>
   zero_from i xs = take i xs @ replicate (MaxStreamNameLen - i) 0"
proof (induction i xs rule: zero_from.induct)
  case (1 i xs)
  show ?case
  proof (cases "i < MaxStreamNameLen")
    case True
    have "zero_from i xs = zero_from (i + 1) (xs[i := 0])"
      using True by (subst zero_from.simps) simp
    also have "\<dots> = take (i + 1) (xs[i := 0]) @ replicate (MaxStreamNameLen - (i + 1)) 0"
      using 1 True by simp
    also have "take (i + 1) (xs[i := 0]) = take i xs @ [0]"
      using True 1(2) by (simp add: take_Suc_conv_app_nth)
    also have "(take i xs @ [0]) @ replicate (MaxStreamNameLen - (i + 1)) 0
               = take i xs @ replicate (MaxStreamNameLen - i) 0"
      using True by (simp add: replicate_Suc [symmetric] Suc_diff_Suc del: replicate_Suc)
    finally show ?thesis .
  next
    case False
    with 1 show ?thesis by (subst zero_from.simps) simp
  qed
qed

lemma SetStreamName_eq:
  assumes "wf_Header h"
  shows "SetStreamName h name =
    h\<lparr>StreamName := take MaxStreamNameLen name @ replicate (MaxStreamNameLen - length name) 0\<rparr>"
  using assms
  by (simp add: SetStreamName_def copy_bytes_def Let_def wf_Header_def zero_from_eq min_def)

lemma wf_zero_Header: "wf_Header zero_Header"
  by (simp add: wf_Header_def zero_Header_def)

lemma wf_SetStreamName: "wf_Header h \<Longrightarrow> wf_Header (SetStreamName h name)"
  by (simp add: SetStreamName_eq) (simp add: wf_Header_def)

lemma wf_NewHeader: "wf_Header (NewHeader sp name)"
proof -
  have "wf_Header (zero_Header\<lparr>VBAN := HeaderMagic, FormatSR := sp\<rparr>)"
    by (simp add: wf_Header_def zero_Header_def)
  then show ?thesis
    unfolding NewHeader_def by (rule wf_SetStreamName)
qed

lemma VBAN_NewHeader: "VBAN (NewHeader sp name) = HeaderMagic"
  by (simp add: NewHeader_def SetStreamName_eq wf_Header_def zero_Header_def)

subsection \<open>Decoding what the encoder wrote\<close>

lemma length_encoded:
  "wf_Header h \<Longrightarrow>
   length (PutUint32 (VBAN h) @ [FormatSR h, FormatNbs h, FormatNbc h, FormatBit h]
          @ StreamName h @ PutUint32 (NuFrame h)) = 28"
  by (simp add: wf_Header_def MaxStreamNameLen_def length_PutUint32)

lemma Header_UnmarshalBinary_encoded:
  assumes "VBAN h = HeaderMagic" and "wf_Header h" and "wf_Header h0"
  shows "Header_UnmarshalBinary h0
           (PutUint32 (VBAN h) @ [FormatSR h, FormatNbs h, FormatNbc h, FormatBit h]
            @ StreamName h @ PutUint32 (NuFrame h)) = (h, None)"
proof -
  let ?bs = "PutUint32 (VBAN h) @ [FormatSR h, FormatNbs h, FormatNbc h, FormatBit h]
          @ StreamName h @ PutUint32 (NuFrame h)"
  have len: "length ?bs = 28"
    using assms(2) by (rule length_encoded)
  have magic: "Uint32 (take 4 ?bs) = HeaderMagic"
    using assms(1) by (simp add: length_PutUint32 Uint32_PutUint32)
  have "Header_UnmarshalBinary h0 ?bs =
     (h0\<lparr>VBAN := Uint32 (take 4 ?bs), FormatSR := ?bs ! 4, FormatNbs := ?bs ! 5,
             FormatNbc := ?bs ! 6, FormatBit := ?bs ! 7, StreamName := take 16 (drop 8 ?bs),
             NuFrame := Uint32 (take 4 (drop 24 ?bs))\<rparr>, None)"
    using Header_UnmarshalBinary_long [of ?bs h0] len assms(3) magic
    by (simp add: HeaderSize_def)
  also have "h0\<lparr>VBAN := Uint32 (take 4 ?bs), FormatSR := ?bs ! 4, FormatNbs := ?bs ! 5,
             FormatNbc := ?bs ! 6, FormatBit := ?bs ! 7, StreamName := take 16 (drop 8 ?bs),
             NuFrame := Uint32 (take 4 (drop 24 ?bs))\<rparr> = h"
    using assms(2)
    by (simp add: wf_Header_def MaxStreamNameLen_def length_PutUint32 Uint32_PutUint32 nth_append)
  finally show ?thesis .
qed

section \<open>The packet codec\<close>

lemma copy_bytes_fresh:
  "copy_bytes (replicate (length src) 0) src = (src, length src)"
  by (simp add: copy_bytes_def)

lemma UnmarshalBinary_short:
  "length data < HeaderSize \<Longrightarrow>
   UnmarshalBinary data = (None, Some (InsufficientPacketData (length data) HeaderSize))"
  by (simp add: UnmarshalBinary_def)

lemma UnmarshalBinary_oversize:
  "MaxVBANPacketSize < length data \<Longrightarrow>
   UnmarshalBinary data = (None, Some (PacketSizeExceeds (length data) MaxVBANPacketSize))"
  by (simp add: UnmarshalBinary_def MaxVBANPacketSize_def)

lemma UnmarshalBinary_sized:
  assumes "HeaderSize \<le> length data" and "length data \<le> MaxVBANPacketSize"
  shows "UnmarshalBinary data =
    (if Uint32 (take 4 data) \<noteq> HeaderMagic
     then (None, Some (UnmarshalHeaderFailed (InvalidMagic HeaderMagic (Uint32 (take 4 data)))))
     else (Some \<lparr>Header = zero_Header\<lparr>VBAN := Uint32 (take 4 data), FormatSR := data ! 4,
                    FormatNbs := data ! 5, FormatNbc := data ! 6, FormatBit := data ! 7,
                    StreamName := take 16 (drop 8 data),
                    NuFrame := Uint32 (take 4 (drop 24 data))\<rparr>,
                  Data = drop HeaderSize data\<rparr>, None))"
proof -
  have l: "HeaderSize \<le> length (take HeaderSize data)"
    using assms(1) by simp
  have h: "Header_UnmarshalBinary zero_Header (take HeaderSize data) =
    (if Uint32 (take 4 data) \<noteq> HeaderMagic
     then (zero_Header\<lparr>VBAN := Uint32 (take 4 data)\<rparr>,
           Some (InvalidMagic HeaderMagic (Uint32 (take 4 data))))
     else (zero_Header\<lparr>VBAN := Uint32 (take 4 data), FormatSR := data ! 4, FormatNbs := data ! 5,
             FormatNbc := data ! 6, FormatBit := data ! 7, StreamName := take 16 (drop 8 data),
             NuFrame := Uint32 (take 4 (drop 24 data))\<rparr>, None))"
    using Header_UnmarshalBinary_long [OF l wf_zero_Header] assms(1)
    by (simp add: HeaderSize_def take_drop min_def)
  show ?thesis
    using assms by (simp add: UnmarshalBinary_def h copy_bytes_fresh)
qed

lemma Uint32_zeros: "Uint32 (take 4 (replicate 28 0)) = 0"
  by (simp add: Uint32_def)

lemma magic_nonzero: "(0 :: uint32) \<noteq> HeaderMagic"
  by (simp add: HeaderMagic_def)

lemma Header_UnmarshalBinary_zeros:
  assumes "wf_Header h"
  shows "Header_UnmarshalBinary h (replicate 28 0) = (h\<lparr>VBAN := 0\<rparr>, Some (InvalidMagic HeaderMagic 0))"
  using Header_UnmarshalBinary_long [of "replicate 28 0" h] assms Uint32_zeros magic_nonzero
  by (simp add: HeaderSize_def)

lemma UnmarshalBinary_zeros:
  "UnmarshalBinary (replicate 28 0) = (None, Some (UnmarshalHeaderFailed (InvalidMagic HeaderMagic 0)))"
  using UnmarshalBinary_sized [of "replicate 28 0"] Uint32_zeros magic_nonzero
  by (simp add: HeaderSize_def MaxVBANPacketSize_def)

lemma magic_bytes: "Uint32 (take 4 (PutUint32 HeaderMagic @ replicate 24 0)) = HeaderMagic"
  by (simp add: length_PutUint32 Uint32_PutUint32)

lemma Packet_MarshalBinary_ok:
  assumes "wf_Header (Header p)" and "length (Data p) \<le> MaxPacketDataSize"
  shows "Packet_MarshalBinary p =
     Inr ((PutUint32 (VBAN (Header p))
           @ [FormatSR (Header p), FormatNbs (Header p), FormatNbc (Header p), FormatBit (Header p)]
           @ StreamName (Header p) @ PutUint32 (NuFrame (Header p))) @ Data p)"
  using assms by (simp add: Packet_MarshalBinary_def Header_MarshalBinary_wf)

lemma UnmarshalBinary_encoded:
  assumes "VBAN (Header p) = HeaderMagic" and "wf_Header (Header p)"
    and "length (Data p) \<le> MaxPacketDataSize" and "length hb = 28"
    and "Header_UnmarshalBinary zero_Header hb = (Header p, None)"
  shows "UnmarshalBinary (hb @ Data p) = (Some p, None)"
  using assms
  by (simp add: UnmarshalBinary_def HeaderSize_def MaxVBANPacketSize_def MaxPacketDataSize_def
      copy_bytes_fresh)

subsection \<open>The decoder over the store\<close>

lemma length_slice_bytes: "valid_slice st s \<Longrightarrow> length (slice_bytes st s) = len s"
  by (auto simp: valid_slice_def slice_bytes_def)

lemma slice_bytes_prefix:
  "n \<le> len s \<Longrightarrow> slice_bytes st (reslice s 0 n) = take n (slice_bytes st s)"
  by (simp add: slice_bytes_def reslice_def min_def)

lemma slice_bytes_suffix:
  "slice_bytes st (reslice s n (len s)) = drop n (slice_bytes st s)"
  by (simp add: slice_bytes_def reslice_def drop_take add.commute)

lemma copy_into_fresh:
  assumes "valid_slice st src"
  shows "copy_slice (st @ [replicate (len src) 0]) \<lparr>base = length st, off = 0, len = len src\<rparr> src
         = (st @ [slice_bytes st src], len src)"
proof -
  have b: "base src < length st"
    using assms by (simp add: valid_slice_def)
  have "slice_bytes (st @ [replicate (len src) 0]) src = slice_bytes st src"
    using b by (simp add: slice_bytes_def nth_append)
  then show ?thesis
    using length_slice_bytes [OF assms]
    by (simp add: copy_slice_def Let_def)
qed

lemma valid_reslice:
  "valid_slice st s \<Longrightarrow> n \<le> len s \<Longrightarrow> valid_slice st (reslice s n (len s))"
  by (simp add: valid_slice_def reslice_def)

lemma UnmarshalBinary_store_sized:
  assumes "valid_slice st data" and "HeaderSize \<le> len data" and "len data \<le> MaxVBANPacketSize"
  shows "UnmarshalBinary_store st data =
    (case UnmarshalBinary (slice_bytes st data) of
       (Some p, err) \<Rightarrow>
         (st @ [Data p],
          Some \<lparr>Header = Header p,
                Data = \<lparr>base = length st, off = 0, len = len data - HeaderSize\<rparr>\<rparr>, err)
     | (None, err) \<Rightarrow> (st, None, err))"
proof -
  let ?bs = "slice_bytes st data"
  have l: "length ?bs = len data"
    using assms(1) by (rule length_slice_bytes)
  have v: "valid_slice st (reslice data HeaderSize (len data))"
    using assms(1,2) by (rule valid_reslice)
  have le: "len (reslice data HeaderSize (len data)) = len data - HeaderSize"
    by (simp add: reslice_def)
  note mc = copy_into_fresh [OF v, unfolded le slice_bytes_suffix]
  show ?thesis
  proof (cases "Uint32 (take 4 ?bs) \<noteq> HeaderMagic")
    case True
    then show ?thesis
      using assms l Header_UnmarshalBinary_long [of "take HeaderSize ?bs" zero_Header]
        wf_zero_Header
      by (simp add: UnmarshalBinary_store_def UnmarshalBinary_sized slice_bytes_prefix
          HeaderSize_def min_def)
  next
    case False
    then show ?thesis
      using assms l Header_UnmarshalBinary_long [of "take HeaderSize ?bs" zero_Header]
        wf_zero_Header
      by (simp add: UnmarshalBinary_store_def UnmarshalBinary_sized slice_bytes_prefix
          min_def take_drop le make_bytes_def mc Let_def)
        (simp add: HeaderSize_def)
  qed
qed

text \<open>On every valid slice the decoder over the store returns what the decoder over
  byte lists returns on the bytes of the slice, the payload placed in a new array at the
  end of the store.\<close>
lemma UnmarshalBinary_store_refines:
  assumes "valid_slice st data"
  shows "UnmarshalBinary_store st data =
    (case UnmarshalBinary (slice_bytes st data) of
       (Some p, err) \<Rightarrow>
         (st @ [Data p],
          Some \<lparr>Header = Header p,
                Data = \<lparr>base = length st, off = 0, len = len data - HeaderSize\<rparr>\<rparr>, err)
     | (None, err) \<Rightarrow> (st, None, err))"
proof -
  have l: "length (slice_bytes st data) = len data"
    using assms by (rule length_slice_bytes)
  consider "len data < HeaderSize" | "MaxVBANPacketSize < len data"
    | "HeaderSize \<le> len data" "len data \<le> MaxVBANPacketSize"
    by fastforce
  then show ?thesis
  proof cases
    case 1
    then show ?thesis
      by (simp add: UnmarshalBinary_store_def UnmarshalBinary_short l)
  next
    case 2
    then show ?thesis
      by (simp add: UnmarshalBinary_store_def UnmarshalBinary_oversize l
          MaxVBANPacketSize_def)
  next
    case 3
    then show ?thesis
      using assms by (simp add: UnmarshalBinary_store_sized)
  qed
qed

section \<open>Stream names and new headers\<close>

lemma IndexByte_absent: "c \<notin> set xs \<Longrightarrow> IndexByte xs c = - 1"
  by (induction xs) auto

lemma IndexByte_first: "c \<notin> set xs \<Longrightarrow> IndexByte (xs @ c # ys) c = int (length xs)"
  by (induction xs) (auto simp: Let_def)

lemma IndexByte_padded:
  "c \<notin> set xs \<Longrightarrow> 0 < n \<Longrightarrow> IndexByte (xs @ replicate n c) c = int (length xs)"
  by (cases n) (simp_all add: IndexByte_first)

lemma StreamName_SetStreamName:
  "wf_Header h \<Longrightarrow> StreamName (SetStreamName h name)
     = take MaxStreamNameLen name @ replicate (MaxStreamNameLen - length name) 0"
  by (simp add: SetStreamName_eq)

lemma GetStreamName_short:
  assumes "wf_Header h" and "length name < MaxStreamNameLen" and "0 \<notin> set name"
  shows "GetStreamName (SetStreamName h name) = name"
  using assms
  by (simp add: GetStreamName_def StreamName_SetStreamName IndexByte_padded Let_def)

lemma GetStreamName_full:
  assumes "wf_Header h" and "length name = MaxStreamNameLen" and "0 \<notin> set name"
  shows "GetStreamName (SetStreamName h name) = name"
  using assms
  by (simp add: GetStreamName_def StreamName_SetStreamName IndexByte_absent Let_def)

lemma name_with_zero:
  "GetStreamName (SetStreamName zero_Header [0x61, 0, 0x62]) = [0x61]"
  by (simp add: GetStreamName_def StreamName_SetStreamName wf_zero_Header MaxStreamNameLen_def)

lemma NewHeader_eq:
  "NewHeader sp name = \<lparr>VBAN = HeaderMagic, FormatSR = sp, FormatNbs = 0, FormatNbc = 0,
     FormatBit = 0,
     StreamName = take MaxStreamNameLen name @ replicate (MaxStreamNameLen - length name) 0,
     NuFrame = 0\<rparr>"
proof -
  have "wf_Header (zero_Header\<lparr>VBAN := HeaderMagic, FormatSR := sp\<rparr>)"
    by (simp add: wf_Header_def zero_Header_def)
  then show ?thesis
    by (simp add: NewHeader_def SetStreamName_eq) (simp add: zero_Header_def)
qed

lemma NewHeader_fields:
  "VBAN (NewHeader sp name) = HeaderMagic
   \<and> Header_SubProtocol (NewHeader sp name) = sp AND ProtocolMask
   \<and> Header_SRIndex (NewHeader sp name) = sp AND SRMask
   \<and> NewHeader sp name = SetStreamName (NewHeader sp []) name
   \<and> FormatNbs (NewHeader sp name) = 0 \<and> FormatNbc (NewHeader sp name) = 0
   \<and> FormatBit (NewHeader sp name) = 0 \<and> NuFrame (NewHeader sp name) = 0"
  using wf_NewHeader [of sp "[]"]
  by (simp add: SetStreamName_eq) (simp add: NewHeader_eq Header_SubProtocol_def Header_SRIndex_def)

text \<open>\<^verbatim>\<open>SetAudioFormat\<close>, the other place that writes the first format byte, masks both
  parts: the rate index it stores is the low five bits of its argument.\<close>
lemma SetAudioFormat_masks:
  "Header_SRIndex (SetAudioFormat h srIndex dataType codec) = srIndex AND SRMask
   \<and> Header_SubProtocol (SetAudioFormat h srIndex dataType codec) = ProtocolAudio"
proof -
  have a: "(srIndex AND 0x1F) AND (0x1F :: byte) = srIndex AND 0x1F"
    by (simp add: word_bw_assocs)
  have b: "(srIndex AND 0x1F) AND (0xE0 :: byte) = 0"
    by (simp add: word_bw_assocs)
  show ?thesis
    using a b
    by (simp add: SetAudioFormat_def Header_SRIndex_def Header_SubProtocol_def Let_def
        ProtocolAudio_def ProtocolMask_def SRMask_def)
qed

section \<open>Samples per frame and channels\<close>

text \<open>What the two pairs of accessors do on every argument of their type \<^verbatim>\<open>uint8\<close>.\<close>
lemma SetSamplesPerFrame_convention:
  "SetSamplesPerFrame h 0 = (h, Some SamplesOutOfRange)
   \<and> FormatNbs (fst (SetSamplesPerFrame h 1)) = 0
   \<and> (n \<noteq> 0 \<longrightarrow> SetSamplesPerFrame h n = (h\<lparr>FormatNbs := n - 1\<rparr>, None)
                 \<and> SamplesPerFrame (fst (SetSamplesPerFrame h n)) = n)
   \<and> unat (SamplesPerFrame h) = (unat (FormatNbs h) + 1) mod 256"
  by (simp add: SetSamplesPerFrame_def SamplesPerFrame_def unat_word_ariths)

lemma SetChannels_convention:
  "SetChannels h 0 = (h, Some ChannelsOutOfRange)
   \<and> FormatNbc (fst (SetChannels h 1)) = 0
   \<and> (n \<noteq> 0 \<longrightarrow> SetChannels h n = (h\<lparr>FormatNbc := n - 1\<rparr>, None)
                 \<and> Channels (fst (SetChannels h n)) = n)
   \<and> unat (Channels h) = (unat (FormatNbc h) + 1) mod 256"
  by (simp add: SetChannels_def Channels_def unat_word_ariths)

section \<open>The rate tables\<close>

lemma masked_index_bound: "unat (sri AND SRMask) \<le> 31"
proof -
  have "sri AND SRMask \<le> SRMask"
    by (rule word_and_le1)
  then have "unat (sri AND SRMask) \<le> unat SRMask"
    by (simp add: word_le_nat_alt)
  then show ?thesis
    by (simp add: SRMask_def)
qed

lemma byte_cases_25:
  fixes w :: byte
  assumes "unat w \<le> 24"
  shows "w \<in> {0, 1, 2, 3, 4, 5, 6, 7, 8, 9, 10, 11, 12, 13, 14, 15, 16, 17, 18, 19, 20,
               21, 22, 23, 24}"
proof -
  have "unat w \<in> {0, 1, 2, 3, 4, 5, 6, 7, 8, 9, 10, 11, 12, 13, 14, 15, 16, 17, 18, 19, 20,
               21, 22, 23, 24}"
    using assms by simp arith
  then show ?thesis
    by (auto simp: word_unat_eq_iff)
qed


lemma SRList_defined:
  assumes "unat w \<le> 20"
  shows "map_of SRList w \<noteq> None"
proof -
  have "unat w \<le> 24" using assms by simp
  from byte_cases_25 [OF this] assms show ?thesis
    by (auto simp: SRList_def)
qed

lemma BPSList_defined:
  assumes "unat w \<le> 24"
  shows "map_of BPSList w \<noteq> None"
  using byte_cases_25 [OF assms] by (auto simp: BPSList_def)

lemma SRList_undefined:
  assumes "21 \<le> unat w"
  shows "map_of SRList w = None"
proof -
  have "w \<notin> fst ` set SRList"
    using assms by (auto simp: SRList_def)
  then show ?thesis
    by (simp add: map_of_eq_None_iff)
qed

lemma BPSList_undefined:
  assumes "25 \<le> unat w"
  shows "map_of BPSList w = None"
proof -
  have "w \<notin> fst ` set BPSList"
    using assms by (auto simp: BPSList_def)
  then show ?thesis
    by (simp add: map_of_eq_None_iff)
qed

lemma not_audio: "IsSerial sp \<or> IsText sp \<Longrightarrow> \<not> IsAudio sp"
  by (auto simp: IsSerial_def IsText_def IsAudio_def ProtocolSerial_def ProtocolText_def
      ProtocolAudio_def)

section \<open>A closed endpoint\<close>

lemma Conn_Close_closes: "udpConn (fst (Conn_Close net c w)) = None"
  by (simp add: Conn_Close_def split: option.splits prod.splits)

lemma closed_Send:
  "udpConn c = None \<Longrightarrow> Conn_Send net c w p a = (c, w, Some ConnectionClosed)"
  by (simp add: Conn_Send_def)

lemma closed_Receive:
  "udpConn c = None \<Longrightarrow> Conn_Receive net c w = (c, w, None, None, Some ConnectionClosed)"
  by (simp add: Conn_Receive_def)

lemma closed_Close:
  "udpConn c = None \<Longrightarrow> Conn_Close net c w = (c, w, None)"
  by (simp add: Conn_Close_def)

lemma closed_Addr:
  "udpConn c = None \<Longrightarrow> Conn_LocalAddr net c w = None \<and> Conn_RemoteAddr net c w = None"
  by (simp add: Conn_LocalAddr_def Conn_RemoteAddr_def)

lemma closed_step:
  assumes "udpConn c = None"
  shows "step net x (c, w) =
    ((c, w), (case x of
        Send p a \<Rightarrow> SendReply (Some ConnectionClosed)
      | Receive \<Rightarrow> ReceiveReply None None (Some ConnectionClosed)
      | Close \<Rightarrow> CloseReply None
      | LocalAddr \<Rightarrow> AddrReply None
      | RemoteAddr \<Rightarrow> AddrReply None))"
  using assms
  by (cases x) (simp_all add: closed_Send closed_Receive closed_Close closed_Addr)

lemma closed_run:
  assumes "udpConn c = None"
  shows "run net calls (c, w) =
    ((c, w), map (\<lambda>x. case x of
        Send p a \<Rightarrow> SendReply (Some ConnectionClosed)
      | Receive \<Rightarrow> ReceiveReply None None (Some ConnectionClosed)
      | Close \<Rightarrow> CloseReply None
      | LocalAddr \<Rightarrow> AddrReply None
      | RemoteAddr \<Rightarrow> AddrReply None) calls)"
proof (induction calls)
  case Nil
  show ?case by simp
next
  case (Cons x xs)
  then show ?case
    by (simp add: closed_step [OF assms])
qed

section \<open>Claims\<close>

text \<open>C1 (header round trip). Let \<open>h\<close> be a header whose magic field is the protocol
  constant (its stream name being, as the Go type has it, an array of 16 bytes). Then
  \<^verbatim>\<open>h.MarshalBinary()\<close> succeeds with 28 bytes, and \<^verbatim>\<open>UnmarshalBinary\<close> on these bytes,
  called on any receiver \<open>h0\<close>, returns no error and leaves the receiver equal to \<open>h\<close> in
  every field: magic, the four format bytes, the 16 bytes of the name, the frame counter.\<close>
theorem Header_roundtrip:
  assumes "VBAN h = HeaderMagic" and "wf_Header h" and "wf_Header h0"
  shows "\<exists>bs. Header_MarshalBinary h = Inr bs \<and> length bs = 28
              \<and> Header_UnmarshalBinary h0 bs = (h, None)"
  using Header_MarshalBinary_wf [OF assms(2)] length_encoded [OF assms(2)]
    Header_UnmarshalBinary_encoded [OF assms]
  by blast

theorem Header_roundtrip_witness:
  "VBAN (NewHeader ProtocolAudio [0x53, 0x31]) = HeaderMagic
   \<and> wf_Header (NewHeader ProtocolAudio [0x53, 0x31]) \<and> wf_Header zero_Header
   \<and> (\<exists>bs. Header_MarshalBinary (NewHeader ProtocolAudio [0x53, 0x31]) = Inr bs \<and> length bs = 28
         \<and> Header_UnmarshalBinary zero_Header bs = (NewHeader ProtocolAudio [0x53, 0x31], None))"
  using VBAN_NewHeader wf_NewHeader wf_zero_Header
    Header_roundtrip [OF VBAN_NewHeader wf_NewHeader wf_zero_Header]
  by simp

text \<open>C2 (samples and channels, the minus-one convention): the code at the inputs where
  it departs from the claim. Both accessors and both mutators work on \<^verbatim>\<open>uint8\<close>. For the
  stored byte 255 \<^verbatim>\<open>SamplesPerFrame()\<close> and \<^verbatim>\<open>Channels()\<close> return 0, not 256: the addition
  wraps. The value 256 is no \<^verbatim>\<open>uint8\<close>; converted to one it is 0, which both mutators
  reject.\<close>
theorem samples_per_frame_wraps:
  "SamplesPerFrame (zero_Header\<lparr>FormatNbs := 255\<rparr>) = 0
   \<and> Channels (zero_Header\<lparr>FormatNbc := 255\<rparr>) = 0
   \<and> (word_of_nat 256 :: byte) = 0
   \<and> SetSamplesPerFrame zero_Header (word_of_nat 256) = (zero_Header, Some SamplesOutOfRange)
   \<and> SetChannels zero_Header (word_of_nat 256) = (zero_Header, Some ChannelsOutOfRange)"
  by (simp add: SamplesPerFrame_def Channels_def SetSamplesPerFrame_def SetChannels_def)

text \<open>C3 (magic rejection). Let the input have at least 28 and at most 1464 bytes, and let
  its first four bytes, read as a little-endian \<^verbatim>\<open>uint32\<close>, differ from the magic constant.
  Then \<^verbatim>\<open>Header.UnmarshalBinary\<close> fails with the invalid-magic error on any receiver, and
  the packet-level \<^verbatim>\<open>UnmarshalBinary\<close> returns no packet and that error wrapped; nothing
  is assumed of the other bytes.\<close>
theorem magic_rejection:
  assumes "HeaderSize \<le> length data" and "length data \<le> MaxVBANPacketSize"
    and "Uint32 (take 4 data) \<noteq> HeaderMagic" and "wf_Header h"
  shows "snd (Header_UnmarshalBinary h data)
           = Some (InvalidMagic HeaderMagic (Uint32 (take 4 data)))
       \<and> UnmarshalBinary data
           = (None, Some (UnmarshalHeaderFailed (InvalidMagic HeaderMagic (Uint32 (take 4 data)))))"
  using assms by (simp add: Header_UnmarshalBinary_long UnmarshalBinary_sized)

theorem magic_rejection_witness:
  "HeaderSize \<le> length (replicate 28 (0 :: byte))
   \<and> length (replicate 28 (0 :: byte)) \<le> MaxVBANPacketSize
   \<and> Uint32 (take 4 (replicate 28 0)) \<noteq> HeaderMagic \<and> wf_Header zero_Header
   \<and> snd (Header_UnmarshalBinary zero_Header (replicate 28 0))
           = Some (InvalidMagic HeaderMagic 0)
   \<and> UnmarshalBinary (replicate 28 0)
           = (None, Some (UnmarshalHeaderFailed (InvalidMagic HeaderMagic 0)))"
proof -
  have a: "HeaderSize \<le> length (replicate 28 (0 :: byte))"
    by (simp add: HeaderSize_def)
  have b: "length (replicate 28 (0 :: byte)) \<le> MaxVBANPacketSize"
    by (simp add: MaxVBANPacketSize_def HeaderSize_def)
  have c: "Uint32 (take 4 (replicate 28 0)) \<noteq> HeaderMagic"
    using Uint32_zeros by (simp add: HeaderMagic_def)
  show ?thesis
    using a b c wf_zero_Header magic_rejection [OF a b c wf_zero_Header] Uint32_zeros
    by simp
qed

text \<open>C4 (packet round trip). Let \<open>p\<close> be a packet whose header has the magic constant
  and whose payload has at most 1436 bytes. Then \<^verbatim>\<open>p.MarshalBinary()\<close> succeeds with some
  bytes \<open>bs\<close>, and \<^verbatim>\<open>UnmarshalBinary(bs)\<close> returns \<open>p\<close>: the same header and the same
  payload bytes, with no error. Moreover, wherever these bytes lie in memory (any store
  \<open>st\<close> and valid slice \<open>data\<close> holding \<open>bs\<close>), the decoder returns the payload as a
  slice \<open>d\<close> of an array that did not exist before the call, hence not the array of the
  input; the arrays that existed are left as they were; and overwriting any of them after
  the call, the input's among them, does not change the bytes of \<open>d\<close>.\<close>
theorem Packet_roundtrip:
  assumes "VBAN (Header p) = HeaderMagic" and "wf_Header (Header p)"
    and "length (Data p) \<le> MaxPacketDataSize"
  shows "\<exists>bs. Packet_MarshalBinary p = Inr bs \<and> UnmarshalBinary bs = (Some p, None)
    \<and> (\<forall>st data. valid_slice st data \<and> slice_bytes st data = bs \<longrightarrow>
          (\<exists>st' d. UnmarshalBinary_store st data
                      = (st', Some \<lparr>Header = Header p, Data = d\<rparr>, None)
             \<and> slice_bytes st' d = Data p
             \<and> take (length st) st' = st
             \<and> length st \<le> base d \<and> base d \<noteq> base data
             \<and> (\<forall>a arr. a < length st \<longrightarrow> slice_bytes (st'[a := arr]) d = Data p)))"
proof -
  let ?hb = "PutUint32 (VBAN (Header p))
           @ [FormatSR (Header p), FormatNbs (Header p), FormatNbc (Header p), FormatBit (Header p)]
           @ StreamName (Header p) @ PutUint32 (NuFrame (Header p))"
  let ?bs = "?hb @ Data p"
  have hl: "length ?hb = 28"
    using assms(2) by (rule length_encoded)
  have m: "Packet_MarshalBinary p = Inr ?bs"
    using assms(2,3) by (rule Packet_MarshalBinary_ok)
  have u: "UnmarshalBinary ?bs = (Some p, None)"
    using assms hl Header_UnmarshalBinary_encoded [OF assms(1,2) wf_zero_Header]
    by (rule UnmarshalBinary_encoded)
  have s: "\<exists>st' d. UnmarshalBinary_store st data
                      = (st', Some \<lparr>Header = Header p, Data = d\<rparr>, None)
             \<and> slice_bytes st' d = Data p
             \<and> take (length st) st' = st
             \<and> length st \<le> base d \<and> base d \<noteq> base data
             \<and> (\<forall>a arr. a < length st \<longrightarrow> slice_bytes (st'[a := arr]) d = Data p)"
    if v: "valid_slice st data" and b: "slice_bytes st data = ?bs" for st data
  proof -
    let ?d = "\<lparr>base = length st, off = 0, len = len data - HeaderSize\<rparr>"
    have l: "len data = 28 + length (Data p)"
      using length_slice_bytes [OF v] b hl by simp
    have "UnmarshalBinary_store st data
            = (st @ [Data p], Some \<lparr>Header = Header p, Data = ?d\<rparr>, None)"
      using UnmarshalBinary_store_sized [OF v] l assms(3) u b
      by (simp add: HeaderSize_def MaxVBANPacketSize_def MaxPacketDataSize_def)
    moreover have "slice_bytes (st @ [Data p]) ?d = Data p"
      using l by (simp add: slice_bytes_def HeaderSize_def)
    moreover have "slice_bytes ((st @ [Data p])[a := arr]) ?d = Data p" if "a < length st" for a arr
      using l that by (simp add: slice_bytes_def HeaderSize_def list_update_append1 nth_append)
    moreover have "base ?d \<noteq> base data"
      using v by (simp add: valid_slice_def)
    ultimately show ?thesis
      by (intro exI [of _ "st @ [Data p]"] exI [of _ ?d]) simp
  qed
  from m u s show ?thesis by blast
qed

theorem Packet_roundtrip_witness:
  "VBAN (Header \<lparr>Header = NewHeader ProtocolAudio [0x53, 0x31], Data = [1, 2, 3 :: byte]\<rparr>) = HeaderMagic
   \<and> wf_Header (Header \<lparr>Header = NewHeader ProtocolAudio [0x53, 0x31], Data = [1, 2, 3 :: byte]\<rparr>)
   \<and> length (Data \<lparr>Header = NewHeader ProtocolAudio [0x53, 0x31], Data = [1, 2, 3 :: byte]\<rparr>)
        \<le> MaxPacketDataSize
   \<and> (\<exists>bs. Packet_MarshalBinary \<lparr>Header = NewHeader ProtocolAudio [0x53, 0x31], Data = [1, 2, 3 :: byte]\<rparr>
             = Inr bs
        \<and> UnmarshalBinary bs
             = (Some \<lparr>Header = NewHeader ProtocolAudio [0x53, 0x31], Data = [1, 2, 3 :: byte]\<rparr>, None)
        \<and> valid_slice [bs] \<lparr>base = 0, off = 0, len = length bs\<rparr>
        \<and> (\<exists>st' d. UnmarshalBinary_store [bs] \<lparr>base = 0, off = 0, len = length bs\<rparr>
                      = (st', Some \<lparr>Header = NewHeader ProtocolAudio [0x53, 0x31], Data = d\<rparr>, None)
             \<and> slice_bytes st' d = [1, 2, 3]
             \<and> slice_bytes (st'[0 := []]) d = [1, 2, 3]))"
proof -
  let ?p = "\<lparr>Header = NewHeader ProtocolAudio [0x53, 0x31], Data = [1, 2, 3 :: byte]\<rparr>"
  have a: "VBAN (Header ?p) = HeaderMagic"
    by (simp add: VBAN_NewHeader)
  have b: "wf_Header (Header ?p)"
    by (simp add: wf_NewHeader)
  have c: "length (Data ?p) \<le> MaxPacketDataSize"
    by (simp add: MaxPacketDataSize_def)
  from Packet_roundtrip [OF a b c] obtain bs where
    m: "Packet_MarshalBinary ?p = Inr bs" and u: "UnmarshalBinary bs = (Some ?p, None)"
    and s: "\<And>st data. valid_slice st data \<Longrightarrow> slice_bytes st data = bs \<Longrightarrow>
          (\<exists>st' d. UnmarshalBinary_store st data
                      = (st', Some \<lparr>Header = Header ?p, Data = d\<rparr>, None)
             \<and> slice_bytes st' d = Data ?p
             \<and> take (length st) st' = st
             \<and> length st \<le> base d \<and> base d \<noteq> base data
             \<and> (\<forall>a arr. a < length st \<longrightarrow> slice_bytes (st'[a := arr]) d = Data ?p))"
    by blast
  let ?data = "\<lparr>base = 0, off = 0, len = length bs\<rparr>"
  have v: "valid_slice [bs] ?data"
    by (simp add: valid_slice_def)
  have sb: "slice_bytes [bs] ?data = bs"
    by (simp add: slice_bytes_def)
  from s [OF v sb] obtain st' d where
    "UnmarshalBinary_store [bs] ?data = (st', Some \<lparr>Header = Header ?p, Data = d\<rparr>, None)"
    and "slice_bytes st' d = Data ?p"
    and "\<forall>a arr. a < length [bs] \<longrightarrow> slice_bytes (st'[a := arr]) d = Data ?p"
    by blast
  then have "UnmarshalBinary_store [bs] ?data
               = (st', Some \<lparr>Header = NewHeader ProtocolAudio [0x53, 0x31], Data = d\<rparr>, None)
             \<and> slice_bytes st' d = [1, 2, 3]
             \<and> slice_bytes (st'[0 := []]) d = [1, 2, 3]"
    by simp
  with a b c m u v show ?thesis
    by blast
qed

text \<open>C5 (size boundaries), as amended. \<^verbatim>\<open>NewPacket\<close> succeeds for every payload of
  1436 bytes and fails with the data-size error for every payload of 1437 bytes or more.
  The packet-level \<^verbatim>\<open>UnmarshalBinary\<close> fails for every input of 27 bytes or fewer, fails
  for every input of 1465 bytes or more (the ceiling is 1464 = 28 + 1436), and for an input
  of exactly 28 bytes \<^emph>\<open>that begins with the magic constant\<close> it succeeds with an empty
  payload.\<close>
theorem size_boundaries:
  "(length d1 = 1436 \<longrightarrow> NewPacket h d1 = (Some \<lparr>Header = h, Data = d1\<rparr>, None))
   \<and> (1437 \<le> length d2 \<longrightarrow>
        NewPacket h d2 = (None, Some (DataSizeExceeds (length d2) MaxPacketDataSize)))
   \<and> (length b1 \<le> 27 \<longrightarrow>
        UnmarshalBinary b1 = (None, Some (InsufficientPacketData (length b1) HeaderSize)))
   \<and> (length b2 = 28 \<and> Uint32 (take 4 b2) = HeaderMagic \<longrightarrow>
        snd (UnmarshalBinary b2) = None
        \<and> map_option Data (fst (UnmarshalBinary b2)) = Some [])
   \<and> (1465 \<le> length b3 \<longrightarrow>
        UnmarshalBinary b3 = (None, Some (PacketSizeExceeds (length b3) MaxVBANPacketSize)))
   \<and> MaxVBANPacketSize = 1464 \<and> HeaderSize = 28 \<and> MaxPacketDataSize = 1436"
proof -
  have "length b2 = 28 \<Longrightarrow> Uint32 (take 4 b2) = HeaderMagic \<Longrightarrow>
        snd (UnmarshalBinary b2) = None \<and> map_option Data (fst (UnmarshalBinary b2)) = Some []"
    using UnmarshalBinary_sized [of b2]
    by (simp add: HeaderSize_def MaxVBANPacketSize_def MaxPacketDataSize_def)
  moreover have "length b1 \<le> 27 \<Longrightarrow>
        UnmarshalBinary b1 = (None, Some (InsufficientPacketData (length b1) HeaderSize))"
    using UnmarshalBinary_short [of b1] by (simp add: HeaderSize_def)
  moreover have "1465 \<le> length b3 \<Longrightarrow>
        UnmarshalBinary b3 = (None, Some (PacketSizeExceeds (length b3) MaxVBANPacketSize))"
    using UnmarshalBinary_oversize [of b3]
    by (simp add: HeaderSize_def MaxVBANPacketSize_def MaxPacketDataSize_def)
  ultimately show ?thesis
    by (simp add: NewPacket_def MaxPacketDataSize_def MaxVBANPacketSize_def HeaderSize_def)
qed

theorem size_boundaries_witness:
  "NewPacket zero_Header (replicate 1436 0)
      = (Some \<lparr>Header = zero_Header, Data = replicate 1436 0\<rparr>, None)
   \<and> NewPacket zero_Header (replicate 1437 0) = (None, Some (DataSizeExceeds 1437 1436))
   \<and> UnmarshalBinary (replicate 27 0) = (None, Some (InsufficientPacketData 27 28))
   \<and> snd (UnmarshalBinary (PutUint32 HeaderMagic @ replicate 24 0)) = None
   \<and> map_option Data (fst (UnmarshalBinary (PutUint32 HeaderMagic @ replicate 24 0))) = Some []
   \<and> UnmarshalBinary (replicate 1465 0) = (None, Some (PacketSizeExceeds 1465 1464))"
  using size_boundaries [of "replicate 1436 0" zero_Header "replicate 1437 0" "replicate 27 0"
      "PutUint32 HeaderMagic @ replicate 24 0" "replicate 1465 0"] magic_bytes
  by (simp add: length_PutUint32 MaxPacketDataSize_def HeaderSize_def MaxVBANPacketSize_def)

text \<open>The claim as it was stated, for all inputs of exactly 28 bytes, fails on 28 zero bytes:
  the size checks pass and the header is rejected for its magic number.\<close>
theorem size_boundaries_counterexample:
  "length (replicate 28 (0 :: byte)) = 28
   \<and> UnmarshalBinary (replicate 28 0)
       = (None, Some (UnmarshalHeaderFailed (InvalidMagic HeaderMagic 0)))"
  using UnmarshalBinary_zeros by simp

text \<open>C6 (decode atomicity), as amended. Whenever the packet-level \<^verbatim>\<open>UnmarshalBinary\<close>
  returns an error it returns no packet. Whenever \<^verbatim>\<open>Header.UnmarshalBinary\<close> returns an
  error, either the input was shorter than 28 bytes and the receiver is unchanged, or the
  magic number was wrong and every field of the receiver but the magic field is unchanged:
  the magic field holds the rejected value read from the input.\<close>
theorem decode_failure_effects:
  "(snd (UnmarshalBinary data) \<noteq> None \<longrightarrow> fst (UnmarshalBinary data) = None)
   \<and> (wf_Header h \<and> snd (Header_UnmarshalBinary h data) \<noteq> None \<longrightarrow>
        (length data < HeaderSize \<and> fst (Header_UnmarshalBinary h data) = h)
        \<or> (HeaderSize \<le> length data \<and> Uint32 (take 4 data) \<noteq> HeaderMagic
            \<and> fst (Header_UnmarshalBinary h data) = h\<lparr>VBAN := Uint32 (take 4 data)\<rparr>))"
proof -
  have p: "snd (UnmarshalBinary data) \<noteq> None \<Longrightarrow> fst (UnmarshalBinary data) = None"
  proof -
    consider "length data < HeaderSize" | "MaxVBANPacketSize < length data"
      | "HeaderSize \<le> length data" "length data \<le> MaxVBANPacketSize"
      by fastforce
    then show "snd (UnmarshalBinary data) \<noteq> None \<Longrightarrow> fst (UnmarshalBinary data) = None"
      by cases (simp_all add: UnmarshalBinary_short UnmarshalBinary_oversize
          UnmarshalBinary_sized split: if_splits)
  qed
  have q: "wf_Header h \<Longrightarrow> snd (Header_UnmarshalBinary h data) \<noteq> None \<Longrightarrow>
        (length data < HeaderSize \<and> fst (Header_UnmarshalBinary h data) = h)
        \<or> (HeaderSize \<le> length data \<and> Uint32 (take 4 data) \<noteq> HeaderMagic
            \<and> fst (Header_UnmarshalBinary h data) = h\<lparr>VBAN := Uint32 (take 4 data)\<rparr>)"
  proof (cases "length data < HeaderSize")
    case True
    then show ?thesis by (simp add: Header_UnmarshalBinary_short)
  next
    case False
    assume "wf_Header h" and "snd (Header_UnmarshalBinary h data) \<noteq> None"
    with False show ?thesis
      by (simp add: Header_UnmarshalBinary_long split: if_splits)
  qed
  from p q show ?thesis by blast
qed

theorem decode_failure_effects_witness:
  "snd (UnmarshalBinary (replicate 28 0)) \<noteq> None
   \<and> fst (UnmarshalBinary (replicate 28 0)) = None
   \<and> wf_Header (NewHeader ProtocolAudio [])
   \<and> snd (Header_UnmarshalBinary (NewHeader ProtocolAudio []) (replicate 28 0)) \<noteq> None
   \<and> HeaderSize \<le> length (replicate 28 (0 :: byte))
   \<and> fst (Header_UnmarshalBinary (NewHeader ProtocolAudio []) (replicate 28 0))
       = (NewHeader ProtocolAudio [])\<lparr>VBAN := 0\<rparr>"
  using decode_failure_effects [of "replicate 28 0" "NewHeader ProtocolAudio []"]
    UnmarshalBinary_zeros Header_UnmarshalBinary_zeros [OF wf_NewHeader, of ProtocolAudio "[]"]
    wf_NewHeader [of ProtocolAudio "[]"]
  by (simp add: HeaderSize_def)

text \<open>The claim as it was stated, every field of the receiver unchanged, fails on a header
  made by \<^verbatim>\<open>NewHeader\<close> and 28 zero bytes: the call returns the invalid-magic error and the
  receiver's magic field has gone from the constant to 0.\<close>
theorem decode_failure_effects_counterexample:
  "snd (Header_UnmarshalBinary (NewHeader ProtocolAudio []) (replicate 28 0))
      = Some (InvalidMagic HeaderMagic 0)
   \<and> VBAN (NewHeader ProtocolAudio []) = HeaderMagic
   \<and> VBAN (fst (Header_UnmarshalBinary (NewHeader ProtocolAudio []) (replicate 28 0))) = 0
   \<and> fst (Header_UnmarshalBinary (NewHeader ProtocolAudio []) (replicate 28 0))
      \<noteq> NewHeader ProtocolAudio []"
proof -
  have "NewHeader ProtocolAudio [] \<lparr>VBAN := 0\<rparr> \<noteq> NewHeader ProtocolAudio []"
  proof
    assume "NewHeader ProtocolAudio [] \<lparr>VBAN := 0\<rparr> = NewHeader ProtocolAudio []"
    then have "VBAN (NewHeader ProtocolAudio [] \<lparr>VBAN := 0\<rparr>) = VBAN (NewHeader ProtocolAudio [])"
      by simp
    then show False using VBAN_NewHeader [of ProtocolAudio "[]"] magic_nonzero by simp
  qed
  then show ?thesis
    using Header_UnmarshalBinary_zeros [OF wf_NewHeader, of ProtocolAudio "[]"] VBAN_NewHeader
    by simp
qed

text \<open>C7 (postcondition of \<^verbatim>\<open>NewHeader\<close>): the code at an input where it departs from the
  claim. \<^verbatim>\<open>NewHeader\<close> stores the sub-protocol byte as it is given; for the value
  \<^verbatim>\<open>0x21\<close> the format byte is \<^verbatim>\<open>0x21\<close>, so \<^verbatim>\<open>SRIndex()\<close> returns 1, not 0.\<close>
theorem NewHeader_rate_index_not_cleared:
  "FormatSR (NewHeader 0x21 []) = 0x21 \<and> Header_SRIndex (NewHeader 0x21 []) = 1
   \<and> Header_SubProtocol (NewHeader 0x21 []) = ProtocolSerial"
  by (simp add: NewHeader_eq Header_SRIndex_def Header_SubProtocol_def SRMask_def
      ProtocolMask_def ProtocolSerial_def)

text \<open>C8 (stream name), as amended. On a header \<open>h\<close>, whatever name it held:
  for every name of fewer than 16 bytes \<^verbatim>\<open>SetStreamName\<close> stores the name followed by zero
  bytes up to 16; if moreover the name \<^emph>\<open>contains no zero byte\<close>, \<^verbatim>\<open>GetStreamName\<close> then
  returns exactly the name; for every name of 16 bytes without a zero byte
  \<^verbatim>\<open>GetStreamName\<close> returns all 16 bytes; a name of more than 16 bytes is stored as its
  first 16 bytes.\<close>
theorem stream_name_set_get:
  assumes "wf_Header h"
  shows "(length n1 < 16 \<longrightarrow>
            StreamName (SetStreamName h n1) = n1 @ replicate (16 - length n1) 0)
       \<and> (length n1 < 16 \<and> 0 \<notin> set n1 \<longrightarrow> GetStreamName (SetStreamName h n1) = n1)
       \<and> (length n2 = 16 \<and> 0 \<notin> set n2 \<longrightarrow> GetStreamName (SetStreamName h n2) = n2)
       \<and> (16 < length n3 \<longrightarrow> StreamName (SetStreamName h n3) = take 16 n3)"
  using assms GetStreamName_short [of h n1] GetStreamName_full [of h n2]
  by (simp add: StreamName_SetStreamName MaxStreamNameLen_def)

theorem stream_name_set_get_witness:
  "wf_Header (NewHeader ProtocolAudio
      [0x41, 0x41, 0x41, 0x41, 0x41, 0x41, 0x41, 0x41, 0x41, 0x41, 0x41, 0x41, 0x41, 0x41, 0x41, 0x41])
   \<and> StreamName (SetStreamName (NewHeader ProtocolAudio
      [0x41, 0x41, 0x41, 0x41, 0x41, 0x41, 0x41, 0x41, 0x41, 0x41, 0x41, 0x41, 0x41, 0x41, 0x41, 0x41]) [0x53, 0x31])
       = [0x53, 0x31] @ replicate 14 0
   \<and> GetStreamName (SetStreamName (NewHeader ProtocolAudio
      [0x41, 0x41, 0x41, 0x41, 0x41, 0x41, 0x41, 0x41, 0x41, 0x41, 0x41, 0x41, 0x41, 0x41, 0x41, 0x41]) [0x53, 0x31])
       = [0x53, 0x31]
   \<and> GetStreamName (SetStreamName (NewHeader ProtocolAudio
      [0x41, 0x41, 0x41, 0x41, 0x41, 0x41, 0x41, 0x41, 0x41, 0x41, 0x41, 0x41, 0x41, 0x41, 0x41, 0x41])
      [0x42, 0x42, 0x42, 0x42, 0x42, 0x42, 0x42, 0x42, 0x42, 0x42, 0x42, 0x42, 0x42, 0x42, 0x42, 0x42])
       = [0x42, 0x42, 0x42, 0x42, 0x42, 0x42, 0x42, 0x42, 0x42, 0x42, 0x42, 0x42, 0x42, 0x42, 0x42, 0x42]
   \<and> StreamName (SetStreamName (NewHeader ProtocolAudio
      [0x41, 0x41, 0x41, 0x41, 0x41, 0x41, 0x41, 0x41, 0x41, 0x41, 0x41, 0x41, 0x41, 0x41, 0x41, 0x41])
      [0x43, 0x43, 0x43, 0x43, 0x43, 0x43, 0x43, 0x43, 0x43, 0x43, 0x43, 0x43, 0x43, 0x43, 0x43, 0x43, 0x43])
       = [0x43, 0x43, 0x43, 0x43, 0x43, 0x43, 0x43, 0x43, 0x43, 0x43, 0x43, 0x43, 0x43, 0x43, 0x43, 0x43]"
  using stream_name_set_get [OF wf_NewHeader, of "[0x53, 0x31]" ProtocolAudio
      "[0x41, 0x41, 0x41, 0x41, 0x41, 0x41, 0x41, 0x41, 0x41, 0x41, 0x41, 0x41, 0x41, 0x41, 0x41, 0x41]"
      "[0x42, 0x42, 0x42, 0x42, 0x42, 0x42, 0x42, 0x42, 0x42, 0x42, 0x42, 0x42, 0x42, 0x42, 0x42, 0x42]"
      "[0x43, 0x43, 0x43, 0x43, 0x43, 0x43, 0x43, 0x43, 0x43, 0x43, 0x43, 0x43, 0x43, 0x43, 0x43, 0x43, 0x43]"]
    wf_NewHeader [of ProtocolAudio "[0x41, 0x41, 0x41, 0x41, 0x41, 0x41, 0x41, 0x41, 0x41, 0x41, 0x41, 0x41, 0x41, 0x41, 0x41, 0x41]"]
  by simp

text \<open>The claim as it was stated, for every name of fewer than 16 bytes, fails on the
  three-byte name \<^verbatim>\<open>0x61, 0x00, 0x62\<close>: \<^verbatim>\<open>GetStreamName\<close> stops at the zero byte and
  returns the one byte \<^verbatim>\<open>0x61\<close>.\<close>
theorem stream_name_set_get_counterexample:
  "length [0x61, 0, 0x62 :: byte] < 16
   \<and> GetStreamName (SetStreamName zero_Header [0x61, 0, 0x62]) = [0x61]
   \<and> GetStreamName (SetStreamName zero_Header [0x61, 0, 0x62]) \<noteq> [0x61, 0, 0x62]"
  by (simp add: name_with_zero)

text \<open>C9 (rate lookup). \<^verbatim>\<open>GetRate\<close> is a total function to \<^verbatim>\<open>uint32\<close>: it has no error
  result. With the index masked by \<^verbatim>\<open>0x1F\<close> (so at most 31): for an Audio sub-protocol it
  returns the entry of the sample-rate table when the masked index is at most 20, and 0
  when it is 21 or more; for a Serial or Text sub-protocol it returns the entry of the
  bits-per-second table when the masked index is at most 24, and 0 when it is 25 or more;
  for any other sub-protocol it returns 0.\<close>
theorem GetRate_total:
  "(IsAudio p1 \<and> unat (s1 AND SRMask) \<le> 20 \<longrightarrow>
      map_of SRList (s1 AND SRMask) = Some (GetRate s1 p1))
   \<and> (IsAudio p2 \<and> 21 \<le> unat (s2 AND SRMask) \<longrightarrow> GetRate s2 p2 = 0)
   \<and> ((IsSerial p3 \<or> IsText p3) \<and> unat (s3 AND SRMask) \<le> 24 \<longrightarrow>
      map_of BPSList (s3 AND SRMask) = Some (GetRate s3 p3))
   \<and> ((IsSerial p4 \<or> IsText p4) \<and> 25 \<le> unat (s4 AND SRMask) \<longrightarrow> GetRate s4 p4 = 0)
   \<and> (\<not> IsAudio p5 \<and> \<not> IsSerial p5 \<and> \<not> IsText p5 \<longrightarrow> GetRate s5 p5 = 0)
   \<and> unat (s1 AND SRMask) \<le> 31"
proof -
  have a: "map_of SRList (s1 AND SRMask) = Some (GetRate s1 p1)"
    if "IsAudio p1" and "unat (s1 AND SRMask) \<le> 20"
    using that SRList_defined [of "s1 AND SRMask"]
    by (auto simp: GetRate_def Let_def)
  have b: "GetRate s2 p2 = 0" if "IsAudio p2" and "21 \<le> unat (s2 AND SRMask)"
    using that SRList_undefined [of "s2 AND SRMask"]
    by (simp add: GetRate_def Let_def)
  have c: "map_of BPSList (s3 AND SRMask) = Some (GetRate s3 p3)"
    if "IsSerial p3 \<or> IsText p3" and "unat (s3 AND SRMask) \<le> 24"
    using that BPSList_defined [of "s3 AND SRMask"] not_audio [of p3]
    by (auto simp: GetRate_def Let_def)
  have d: "GetRate s4 p4 = 0" if "IsSerial p4 \<or> IsText p4" and "25 \<le> unat (s4 AND SRMask)"
    using that BPSList_undefined [of "s4 AND SRMask"] not_audio [of p4]
    by (auto simp: GetRate_def Let_def)
  have e: "GetRate s5 p5 = 0" if "\<not> IsAudio p5" and "\<not> IsSerial p5" and "\<not> IsText p5"
    using that by (simp add: GetRate_def Let_def)
  from a b c d e masked_index_bound [of s1] show ?thesis
    by blast
qed

theorem GetRate_total_witness:
  "IsAudio 0x05 \<and> unat ((0x23 :: byte) AND SRMask) = 3
   \<and> map_of SRList 3 = Some 48000 \<and> GetRate 0x23 0x05 = 48000
   \<and> IsAudio ProtocolAudio \<and> unat ((21 :: byte) AND SRMask) = 21 \<and> GetRate 21 ProtocolAudio = 0
   \<and> IsSerial ProtocolSerial \<and> unat ((8 :: byte) AND SRMask) = 8
   \<and> map_of BPSList 8 = Some 9600 \<and> GetRate 8 ProtocolSerial = 9600
   \<and> IsText ProtocolText \<and> unat ((25 :: byte) AND SRMask) = 25 \<and> GetRate 25 ProtocolText = 0
   \<and> \<not> IsAudio ProtocolService \<and> \<not> IsSerial ProtocolService \<and> \<not> IsText ProtocolService
   \<and> GetRate 3 ProtocolService = 0"
proof -
  have ix: "unat ((0x23 :: byte) AND SRMask) = 3" "unat ((21 :: byte) AND SRMask) = 21"
    "unat ((8 :: byte) AND SRMask) = 8" "unat ((25 :: byte) AND SRMask) = 25"
    by (simp_all add: SRMask_def)
  have ix': "(0x23 :: byte) AND SRMask = 3" "(8 :: byte) AND SRMask = 8"
    by (simp_all add: SRMask_def)
  have cl: "IsAudio 0x05" "IsAudio ProtocolAudio" "IsSerial ProtocolSerial" "IsText ProtocolText"
    "\<not> IsAudio ProtocolService" "\<not> IsSerial ProtocolService" "\<not> IsText ProtocolService"
    by (simp_all add: IsAudio_def IsSerial_def IsText_def ProtocolAudio_def
      ProtocolSerial_def ProtocolText_def ProtocolService_def ProtocolMask_def)
  have tb: "map_of SRList 3 = Some 48000" "map_of BPSList 8 = Some 9600"
    by (simp_all add: SRList_def BPSList_def)
  from GetRate_total [of "0x05" "0x23" ProtocolAudio 21 ProtocolSerial 8 ProtocolText 25
      ProtocolService 3] ix ix' cl tb
  show ?thesis
    by simp
qed

text \<open>C10 (closed endpoint). Let \<open>c'\<close> be the endpoint as any call of \<^verbatim>\<open>Close()\<close> leaves
  it, whatever that call returned. Then \<open>c'\<close> is closed; from any state of the world, every
  \<^verbatim>\<open>Send\<close> and every \<^verbatim>\<open>Receive\<close> on it returns the error "connection is closed" and every
  \<^verbatim>\<open>Close\<close> returns no error, each leaving the endpoint and the world as they were (no
  method of the socket is called); and so for every sequence of calls: the endpoint
  stays \<open>c'\<close>, closed, and each call gets the reply of a closed endpoint.\<close>
theorem closed_is_terminal:
  assumes "Conn_Close net c w = (c', w', r)"
  shows "udpConn c' = None
    \<and> (\<forall>w1 p a. Conn_Send net c' w1 p a = (c', w1, Some ConnectionClosed))
    \<and> (\<forall>w1. Conn_Receive net c' w1 = (c', w1, None, None, Some ConnectionClosed))
    \<and> (\<forall>w1. Conn_Close net c' w1 = (c', w1, None))
    \<and> (\<forall>calls w1. run net calls (c', w1) =
          ((c', w1), map (\<lambda>x. case x of
              Send p a \<Rightarrow> SendReply (Some ConnectionClosed)
            | Receive \<Rightarrow> ReceiveReply None None (Some ConnectionClosed)
            | Close \<Rightarrow> CloseReply None
            | LocalAddr \<Rightarrow> AddrReply None
            | RemoteAddr \<Rightarrow> AddrReply None) calls))"
proof -
  have n: "udpConn c' = None"
    using Conn_Close_closes [of net c w] assms by simp
  show ?thesis
    by (simp add: n closed_Send [OF n] closed_Receive [OF n] closed_Close [OF n]
        closed_run [OF n])
qed

theorem closed_is_terminal_witness:
  "Conn_Close
      \<lparr>udp_Close = (\<lambda>u w. (Suc w, None)),
       udp_WriteToUDP = (\<lambda>u bs a w. (Suc w, int (length bs), None)),
       udp_Write = (\<lambda>u bs w. (Suc w, int (length bs), None)),
       udp_ReadFromUDP = (\<lambda>u buf w. (Suc w, buf, 0, None, None)),
       udp_LocalAddr = (\<lambda>u w. None), udp_RemoteAddr = (\<lambda>u w. None)\<rparr>
      \<lparr>udpConn = Some 7, readBuffer = []\<rparr> (0 :: nat)
     = (\<lparr>udpConn = None, readBuffer = []\<rparr>, 1, None)
   \<and> run
      \<lparr>udp_Close = (\<lambda>u w. (Suc w, None)),
       udp_WriteToUDP = (\<lambda>u bs a w. (Suc w, int (length bs), None)),
       udp_Write = (\<lambda>u bs w. (Suc w, int (length bs), None)),
       udp_ReadFromUDP = (\<lambda>u buf w. (Suc w, buf, 0, None, None)),
       udp_LocalAddr = (\<lambda>u w. None), udp_RemoteAddr = (\<lambda>u w. None)\<rparr>
      [Send None None, Receive, Close, LocalAddr]
      (\<lparr>udpConn = None, readBuffer = []\<rparr>, 1 :: nat)
     = ((\<lparr>udpConn = None, readBuffer = []\<rparr>, 1),
        [SendReply (Some ConnectionClosed), ReceiveReply None None (Some ConnectionClosed),
         CloseReply None, AddrReply None])"
proof -
  let ?net = "\<lparr>udp_Close = (\<lambda>u w. (Suc w, None)),
       udp_WriteToUDP = (\<lambda>u bs a w. (Suc w, int (length bs), None)),
       udp_Write = (\<lambda>u bs w. (Suc w, int (length bs), None)),
       udp_ReadFromUDP = (\<lambda>u buf w. (Suc w, buf, 0, None, None)),
       udp_LocalAddr = (\<lambda>u w. None), udp_RemoteAddr = (\<lambda>u w. None)\<rparr>
       :: nat udp"
  have a: "Conn_Close ?net \<lparr>udpConn = Some 7, readBuffer = []\<rparr> 0
           = (\<lparr>udpConn = None, readBuffer = []\<rparr>, 1, None)"
    by (simp add: Conn_Close_def)
  note t = closed_is_terminal [OF a]
  note r = t [THEN conjunct2, THEN conjunct2, THEN conjunct2, THEN conjunct2, THEN spec,
      THEN spec, of "[Send None None, Receive, Close, LocalAddr]" 1]
  from a r show ?thesis
    by simp
qed

end
